theory Spec2Isabelle
  imports Main "HOL-Library.AList" "HOL-Library.Char_ord" "HOL-Library.List_Lexorder"
begin

section \<open>Helper functions of the GSheets adapter (shillelagh/adapters/api/gsheets/lib.py)\<close>

text \<open>
  Python strings are modelled as \<open>string\<close> (lists of 8-bit characters, read as the
  UTF-8 encoding of the text), Python's unbounded integers as \<open>int\<close>, dictionaries as
  association lists in insertion order (\<open>AList.update\<close> overwrites the value of a key
  in place and appends a new key, as a Python \<open>dict\<close> does), and every exception as a
  value of the type \<open>error\<close> on the left of a sum.
\<close>

datatype error = ValueError | KeyError | IndexError | ProgrammingError string

subsection \<open>Column labels\<close>

definition ascii_uppercase :: string where
  "ascii_uppercase = ''ABCDEFGHIJKLMNOPQRSTUVWXYZ''"

text \<open>\<open>s.index(x)\<close>: the first position of \<open>x\<close>, \<open>ValueError\<close> when there is none.\<close>

fun str_index :: "string \<Rightarrow> char \<Rightarrow> error + nat" where
  "str_index [] c = Inl ValueError"
| "str_index (x # xs) c =
     (if x = c then Inr 0
      else case str_index xs c of Inl e \<Rightarrow> Inl e | Inr i \<Rightarrow> Inr (Suc i))"

text \<open>A list comprehension whose body may raise: the first error ends it.\<close>

fun traverse :: "('a \<Rightarrow> error + 'b) \<Rightarrow> 'a list \<Rightarrow> error + 'b list" where
  "traverse f [] = Inr []"
| "traverse f (x # xs) =
     (case f x of
        Inl e \<Rightarrow> Inl e
      | Inr y \<Rightarrow> (case traverse f xs of Inl e \<Rightarrow> Inl e | Inr ys \<Rightarrow> Inr (y # ys)))"

text \<open>
  \<open>gen_letters\<close> is a generator with two local variables, the list \<open>letters\<close> of
  one-character strings and \<open>index\<close>. \<open>gen_letters_step\<close> is the loop body after the
  \<open>yield\<close>; \<open>letters[-1] = x\<close> is the update at position \<open>len(letters) - 1\<close>.
\<close>

type_synonym gen_state = "string list \<times> nat"

definition gen_letters_init :: gen_state where
  "gen_letters_init = ([''A''], 0)"

definition gen_letters_yield :: "gen_state \<Rightarrow> string" where
  "gen_letters_yield st = concat (fst st)"

definition gen_letters_step :: "gen_state \<Rightarrow> gen_state" where
  "gen_letters_step st =
     (let letters = fst st; index = snd st + 1
      in if index = length ascii_uppercase
         then ((letters[length letters - 1 := ''A'']) @ [''A''], 0)
         else (letters[length letters - 1 := [ascii_uppercase ! index]], index))"

text \<open>\<open>itertools.islice(gen_letters(), n)\<close>: the first \<open>n\<close> labels that are yielded.\<close>

fun gen_letters_from :: "nat \<Rightarrow> gen_state \<Rightarrow> string list" where
  "gen_letters_from 0 st = []"
| "gen_letters_from (Suc n) st = gen_letters_yield st # gen_letters_from n (gen_letters_step st)"

definition islice_gen_letters :: "nat \<Rightarrow> string list" where
  "islice_gen_letters n = gen_letters_from n gen_letters_init"

text \<open>The label with index \<open>n\<close>: the element yielded after \<open>n\<close> rounds of the loop.\<close>

definition gen_letters_nth :: "nat \<Rightarrow> string" where
  "gen_letters_nth n = gen_letters_yield ((gen_letters_step ^^ n) gen_letters_init)"

text \<open>
  \<open>get_index_from_letters\<close>: the digits \<open>index + 1\<close> of the letters, reversed, weighted
  by the powers of 26 and summed, minus one.
\<close>

definition get_index_from_letters :: "string \<Rightarrow> error + int" where
  "get_index_from_letters letters =
     (case traverse (\<lambda>letter. str_index ascii_uppercase letter) letters of
        Inl e \<Rightarrow> Inl e
      | Inr idxs \<Rightarrow>
          (let base26 = rev (map (\<lambda>i. int i + 1) idxs)
           in Inr (sum_list (map (\<lambda>(i, v). v * int (length ascii_uppercase) ^ i)
                                 (enumerate 0 base26)) - 1)))"

subsection \<open>Row materialisation\<close>

text \<open>
  \<open>max(iterable)\<close> keeps the first item and replaces it by every later item that is
  greater; on an empty sequence it raises \<open>ValueError\<close>. Strings compare
  lexicographically by character, a proper prefix being smaller.
\<close>

definition py_max :: "string list \<Rightarrow> error + string" where
  "py_max xs =
     (case xs of
        [] \<Rightarrow> Inl ValueError
      | x # rest \<Rightarrow> Inr (foldl (\<lambda>m item. if m < item then item else m) x rest))"

text \<open>A dictionary comprehension: the items are stored one after the other.\<close>

definition dict_of :: "('k \<times> 'v) list \<Rightarrow> ('k \<times> 'v) list" where
  "dict_of items = foldl (\<lambda>d (k, v). AList.update k v d) [] items"

text \<open>
  \<open>itertools.islice(iterable, stop)\<close> raises \<open>ValueError\<close> unless
  \<open>0 <= stop <= sys.maxsize\<close>; \<open>sys.maxsize\<close> is taken from a 64-bit platform.
\<close>

definition sys_maxsize :: int where
  "sys_maxsize = 2 ^ 63 - 1"

text \<open>
  \<open>get_values_from_row\<close>. A \<open>Field\<close> is represented by its method
  \<open>to_unformatted\<close>, so \<open>columns\<close> maps a field name to that function; \<open>row\<close> and
  \<open>column_map\<close> are dictionaries in iteration order. \<open>row.get(column)\<close> is \<open>None\<close>
  for a missing label.
\<close>

definition get_values_from_row ::
  "(string \<times> 'v) list \<Rightarrow> (string \<rightharpoonup> ('v \<Rightarrow> 'w)) \<Rightarrow> (string \<times> string) list
     \<Rightarrow> error + 'w option list" where
  "get_values_from_row row columns column_map =
     (let row1 = dict_of (concat (map (\<lambda>(k, v).
                   case columns k of Some field \<Rightarrow> [(k, field v)] | None \<Rightarrow> []) row));
          row2 = dict_of (concat (map (\<lambda>(k, v).
                   case map_of column_map k of Some label \<Rightarrow> [(label, v)] | None \<Rightarrow> []) row1))
      in case py_max (map snd column_map) of
           Inl e \<Rightarrow> Inl e
         | Inr m \<Rightarrow>
             (case get_index_from_letters m of
                Inl e \<Rightarrow> Inl e
              | Inr i \<Rightarrow>
                  (let n_cols = i + 1
                   in if n_cols < 0 \<or> sys_maxsize < n_cols then Inl ValueError
                      else Inr (map (\<lambda>column. map_of row2 column)
                                    (islice_gen_letters (nat n_cols))))))"

subsection \<open>String methods and integer conversion\<close>

definition ascii_lowercase :: string where
  "ascii_lowercase = ''abcdefghijklmnopqrstuvwxyz''"

definition digits :: string where
  "digits = ''0123456789''"

text \<open>
  \<open>str.upper\<close> and \<open>str.lower\<close> on the letters of ASCII; every other character is
  left as it is (Python also converts the letters outside ASCII).
\<close>

definition upper :: "string \<Rightarrow> string" where
  "upper s = map (\<lambda>c. case map_of (zip ascii_lowercase ascii_uppercase) c of
                          Some u \<Rightarrow> u | None \<Rightarrow> c) s"

definition lower :: "string \<Rightarrow> string" where
  "lower s = map (\<lambda>c. case map_of (zip ascii_uppercase ascii_lowercase) c of
                          Some l \<Rightarrow> l | None \<Rightarrow> c) s"

definition startswith :: "string \<Rightarrow> string \<Rightarrow> bool" where
  "startswith s prefix = (take (length prefix) s = prefix)"

definition endswith :: "string \<Rightarrow> string \<Rightarrow> bool" where
  "endswith s suffix =
     (length suffix \<le> length s \<and> drop (length s - length suffix) s = suffix)"

text \<open>\<open>s.rstrip(c)\<close> for a one-character argument.\<close>

definition rstrip :: "string \<Rightarrow> char \<Rightarrow> string" where
  "rstrip s c = rev (dropWhile (\<lambda>x. x = c) (rev s))"

text \<open>\<open>sep.join(items)\<close>.\<close>

fun join :: "string \<Rightarrow> string list \<Rightarrow> string" where
  "join sep [] = []"
| "join sep [x] = x"
| "join sep (x # y # ys) = x @ sep @ join sep (y # ys)"

text \<open>\<open>s.split(c)\<close> and \<open>s.split(c, 1)\<close> for a one-character separator.\<close>

fun split_on :: "char \<Rightarrow> string \<Rightarrow> string list" where
  "split_on c [] = [[]]"
| "split_on c (x # xs) =
     (if x = c then [] # split_on c xs
      else (case split_on c xs of y # ys \<Rightarrow> (x # y) # ys | [] \<Rightarrow> [[x]]))"

definition split1 :: "char \<Rightarrow> string \<Rightarrow> string list" where
  "split1 c s =
     (if c \<in> set s
      then [takeWhile (\<lambda>x. x \<noteq> c) s, tl (dropWhile (\<lambda>x. x \<noteq> c) s)]
      else [s])"

text \<open>
  \<open>int(s)\<close> in base ten: surrounding whitespace (tab, line feed, vertical tab, form
  feed, carriage return and space) is stripped, a sign may lead, the digits may be
  grouped by single underscores; anything else is a \<open>ValueError\<close>. Whitespace and
  digits outside ASCII, which Python accepts as well, and the limit that recent versions
  put on the number of digits are not modelled.
\<close>

definition whitespace :: string where
  "whitespace = [CHR 0x09, CHR 0x0A, CHR 0x0B, CHR 0x0C, CHR 0x0D, CHR 0x20]"

definition strip :: "string \<Rightarrow> string" where
  "strip s = rev (dropWhile (\<lambda>c. c \<in> set whitespace)
               (rev (dropWhile (\<lambda>c. c \<in> set whitespace) s)))"

definition digit_value :: "char \<Rightarrow> int option" where
  "digit_value c = (case str_index digits c of Inl e \<Rightarrow> None | Inr i \<Rightarrow> Some (int i))"

fun int_digits :: "string \<Rightarrow> int \<Rightarrow> error + int" where
  "int_digits [] acc = Inr acc"
| "int_digits (c # cs) acc =
     (case digit_value c of
        Some d \<Rightarrow> int_digits cs (10 * acc + d)
      | None \<Rightarrow>
          (if c = CHR ''_''
           then (case cs of
                   [] \<Rightarrow> Inl ValueError
                 | c' # cs' \<Rightarrow>
                     (case digit_value c' of
                        Some d \<Rightarrow> int_digits cs' (10 * acc + d)
                      | None \<Rightarrow> Inl ValueError))
           else Inl ValueError))"

definition py_int :: "string \<Rightarrow> error + int" where
  "py_int s =
     (let t = strip s;
          negative = (case t of c # cs \<Rightarrow> c = CHR ''-'' | [] \<Rightarrow> False);
          body = (case t of c # cs \<Rightarrow> if c = CHR ''-'' \<or> c = CHR ''+'' then cs else t
                          | [] \<Rightarrow> [])
      in case body of
           [] \<Rightarrow> Inl ValueError
         | c # cs \<Rightarrow>
             (case digit_value c of
                None \<Rightarrow> Inl ValueError
              | Some d \<Rightarrow>
                  (case int_digits cs d of
                     Inl e \<Rightarrow> Inl e
                   | Inr n \<Rightarrow> Inr (if negative then - n else n))))"

text \<open>\<open>str(n)\<close> for an integer.\<close>

fun str_nat :: "nat \<Rightarrow> string" where
  "str_nat n =
     (if n < 10 then [digits ! n] else str_nat (n div 10) @ [digits ! (n mod 10)])"

declare str_nat.simps [simp del]

definition py_str :: "int \<Rightarrow> string" where
  "py_str i = (if i < 0 then CHR ''-'' # str_nat (nat (- i)) else str_nat (nat i))"

subsection \<open>The functions of \<open>urllib.parse\<close> that the module calls\<close>

text \<open>
  The standard library is modelled after CPython 3.10 on byte strings. Left out are
  the replacement of percent-escaped bytes that are not valid UTF-8 (by U+FFFD in
  Python) and the NFKC check of a host outside ASCII, which can only make \<open>urlparse\<close>
  raise \<open>ValueError\<close> on more inputs.
\<close>

record ParseResult =
  scheme :: string
  netloc :: string
  path :: string
  params :: string
  query :: string
  fragment :: string

definition scheme_chars :: string where
  "scheme_chars = ascii_lowercase @ ascii_uppercase @ digits @ ''+-.''"

definition uses_params :: "string list" where
  "uses_params = [[], ''ftp'', ''hdl'', ''prospero'', ''http'', ''imap'', ''https'',
                  ''shttp'', ''rtsp'', ''rtspu'', ''sip'', ''sips'', ''mms'', ''sftp'', ''tel'']"

definition uses_netloc :: "string list" where
  "uses_netloc = [[], ''ftp'', ''http'', ''gopher'', ''nntp'', ''telnet'', ''imap'', ''wais'',
                  ''file'', ''mms'', ''https'', ''shttp'', ''snews'', ''prospero'', ''rtsp'',
                  ''rtspu'', ''rsync'', ''svn'', ''svn+ssh'', ''sftp'', ''nfs'', ''git'',
                  ''git+ssh'', ''ws'', ''wss'']"

text \<open>Leading C0 control characters and spaces are stripped; tab, CR and LF are removed.\<close>

definition url_clean :: "string \<Rightarrow> string" where
  "url_clean url =
     filter (\<lambda>c. c \<notin> set [CHR 0x09, CHR 0x0A, CHR 0x0D])
       (dropWhile (\<lambda>c. (of_char c :: nat) \<le> 32) url)"

definition split_scheme :: "string \<Rightarrow> string \<times> string" where
  "split_scheme url =
     (let head = takeWhile (\<lambda>c. c \<noteq> CHR '':'') url
      in if CHR '':'' \<in> set url \<and> head \<noteq> [] \<and> list_all (\<lambda>c. c \<in> set scheme_chars) head
         then (lower head, drop (length head + 1) url)
         else ([], url))"

definition split_netloc :: "string \<Rightarrow> error + string \<times> string" where
  "split_netloc url =
     (if take 2 url = ''//''
      then (let rest = drop 2 url;
                loc = takeWhile (\<lambda>c. c \<notin> set ''/?#'') rest
            in if (CHR ''['' \<in> set loc) \<noteq> (CHR '']'' \<in> set loc)
               then Inl ValueError
               else Inr (loc, drop (length loc) rest))
      else Inr ([], url))"

definition split_params :: "string \<Rightarrow> string \<times> string" where
  "split_params url =
     (let segment = rev (takeWhile (\<lambda>c. c \<noteq> CHR ''/'') (rev url));
          before = take (length url - length segment) url
      in if CHR ''/'' \<in> set url
         then (if CHR '';'' \<in> set segment
               then (before @ takeWhile (\<lambda>c. c \<noteq> CHR '';'') segment,
                     tl (dropWhile (\<lambda>c. c \<noteq> CHR '';'') segment))
               else (url, []))
         else (takeWhile (\<lambda>c. c \<noteq> CHR '';'') url, tl (dropWhile (\<lambda>c. c \<noteq> CHR '';'') url)))"

definition urlparse :: "string \<Rightarrow> error + ParseResult" where
  "urlparse uri =
     (let (sch, url) = split_scheme (url_clean uri)
      in case split_netloc url of
           Inl e \<Rightarrow> Inl e
         | Inr (loc, url) \<Rightarrow>
             (let frag = (if CHR ''#'' \<in> set url then tl (dropWhile (\<lambda>c. c \<noteq> CHR ''#'') url) else []);
                  url = takeWhile (\<lambda>c. c \<noteq> CHR ''#'') url;
                  qry = (if CHR ''?'' \<in> set url then tl (dropWhile (\<lambda>c. c \<noteq> CHR ''?'') url) else []);
                  url = takeWhile (\<lambda>c. c \<noteq> CHR ''?'') url;
                  (url, prm) = (if sch \<in> set uses_params \<and> CHR '';'' \<in> set url
                                then split_params url else (url, []))
              in Inr \<lparr>scheme = sch, netloc = loc, path = url, params = prm,
                      query = qry, fragment = frag\<rparr>))"

text \<open>
  \<open>urlunparse\<close>; the module passes \<open>None\<close> for the parameters and the fragment,
  which the function treats like the empty string.
\<close>

definition urlunparse :: "string \<times> string \<times> string \<times> string \<times> string \<times> string \<Rightarrow> string" where
  "urlunparse components =
     (case components of (sch, loc, url, prm, qry, frag) \<Rightarrow>
        (let url = (if prm \<noteq> [] then url @ '';'' @ prm else url);
             url = (if loc \<noteq> [] \<or> (sch \<noteq> [] \<and> sch \<in> set uses_netloc \<and> take 2 url \<noteq> ''//'')
                    then ''//'' @ loc @ (if url \<noteq> [] \<and> take 1 url \<noteq> ''/'' then ''/'' @ url else url)
                    else url);
             url = (if sch \<noteq> [] then sch @ '':'' @ url else url);
             url = (if qry \<noteq> [] then url @ ''?'' @ qry else url);
             url = (if frag \<noteq> [] then url @ ''#'' @ frag else url)
         in url))"

text \<open>\<open>unquote\<close>: \<open>%XX\<close> with two hexadecimal digits becomes the byte it denotes.\<close>

definition hex_value :: "char \<Rightarrow> nat option" where
  "hex_value c =
     (case str_index ''0123456789abcdef'' c of
        Inr i \<Rightarrow> Some i
      | Inl e \<Rightarrow> (case str_index ''0123456789ABCDEF'' c of Inr i \<Rightarrow> Some i | Inl e \<Rightarrow> None))"

fun unquote :: "string \<Rightarrow> string" where
  "unquote [] = []"
| "unquote [c] = [c]"
| "unquote [c, d] = [c, d]"
| "unquote (c # h1 # h2 # cs) =
     (if c = CHR ''%''
      then (case (hex_value h1, hex_value h2) of
              (Some a, Some b) \<Rightarrow> char_of (16 * a + b) # unquote cs
            | _ \<Rightarrow> c # unquote (h1 # h2 # cs))
      else c # unquote (h1 # h2 # cs))"

text \<open>
  \<open>parse_qsl\<close> and \<open>parse_qs\<close> with their default arguments: fields are separated
  by \<open>&\<close>, a field without \<open>=\<close> or with a blank value is skipped, \<open>+\<close> stands for a
  space, and the values of a repeated name are collected in order.
\<close>

definition parse_qsl :: "string \<Rightarrow> (string \<times> string) list" where
  "parse_qsl qs =
     concat (map (\<lambda>name_value.
        case split1 CHR ''='' name_value of
          [name, val] \<Rightarrow>
            (if val \<noteq> []
             then [(unquote (map (\<lambda>c. if c = CHR ''+'' then CHR '' '' else c) name),
                    unquote (map (\<lambda>c. if c = CHR ''+'' then CHR '' '' else c) val))]
             else [])
        | _ \<Rightarrow> [])
       (split_on CHR ''&'' qs))"

definition parse_qs :: "string \<Rightarrow> (string \<times> string list) list" where
  "parse_qs qs =
     foldl (\<lambda>parsed_result (name, val).
              case map_of parsed_result name of
                Some vals \<Rightarrow> AList.update name (vals @ [val]) parsed_result
              | None \<Rightarrow> AList.update name [val] parsed_result)
       [] (parse_qsl qs)"

text \<open>
  \<open>quote_plus\<close> and \<open>urlencode\<close> of a dictionary whose values are integers or
  strings (the type \<open>UrlArgs\<close>).
\<close>

definition always_safe :: string where
  "always_safe = ascii_uppercase @ ascii_lowercase @ digits @ ''_.-~''"

definition hex_digits :: string where
  "hex_digits = ''0123456789ABCDEF''"

definition quote_byte :: "char \<Rightarrow> string" where
  "quote_byte c =
     [CHR ''%'', hex_digits ! ((of_char c :: nat) div 16),
                 hex_digits ! ((of_char c :: nat) mod 16)]"

definition quote :: "string \<Rightarrow> string \<Rightarrow> string" where
  "quote s safe =
     concat (map (\<lambda>c. if c \<in> set always_safe \<or> c \<in> set safe then [c] else quote_byte c) s)"

definition quote_plus :: "string \<Rightarrow> string" where
  "quote_plus s =
     (if CHR '' '' \<in> set s
      then map (\<lambda>c. if c = CHR '' '' then CHR ''+'' else c) (quote s '' '')
      else quote s [])"

datatype arg = IntArg int | StrArg string

fun str_arg :: "arg \<Rightarrow> string" where
  "str_arg (IntArg i) = py_str i"
| "str_arg (StrArg s) = s"

definition urlencode :: "(string \<times> arg) list \<Rightarrow> string" where
  "urlencode items =
     join ''&'' (map (\<lambda>(k, v). quote_plus k @ ''='' @ quote_plus (str_arg v)) items)"

subsection \<open>The URL builder and the synchronisation mode\<close>

definition bind_result :: "error + 'a \<Rightarrow> ('a \<Rightarrow> error + 'b) \<Rightarrow> error + 'b" where
  "bind_result r f = (case r of Inl e \<Rightarrow> Inl e | Inr x \<Rightarrow> f x)"

text \<open>\<open>xs[-1]\<close>, an \<open>IndexError\<close> on the empty list.\<close>

definition py_last :: "'a list \<Rightarrow> error + 'a" where
  "py_last xs = (case xs of [] \<Rightarrow> Inl IndexError | x # rest \<Rightarrow> Inr (last xs))"

text \<open>\<open>get_url\<close>, lines 88 to 91: the path without a trailing \<open>/edit\<close>, then the endpoint.\<close>

definition get_url_path :: "ParseResult \<Rightarrow> string" where
  "get_url_path parts =
     (let p = (if endswith (path parts) ''/edit''
               then take (length (path parts) - length ''/edit'') (path parts)
               else path parts)
      in join ''/'' [rstrip p CHR ''/'', ''gviz/tq''])"

text \<open>
  \<open>get_url\<close>, lines 93 to 102: the header count, the grid id and the sheet name after
  the query string and the fragment have been read.
\<close>

definition get_url_resolve ::
  "ParseResult \<Rightarrow> int \<Rightarrow> int \<Rightarrow> string option \<Rightarrow> error + int \<times> int \<times> string option" where
  "get_url_resolve parts headers gid sheet =
     (let query_string = parse_qs (query parts)
      in bind_result
           (case map_of query_string ''headers'' of
              Some vals \<Rightarrow> bind_result (py_last vals) py_int
            | None \<Rightarrow> Inr headers)
           (\<lambda>headers. bind_result
              (case map_of query_string ''gid'' of
                 Some vals \<Rightarrow> bind_result (py_last vals) py_int
               | None \<Rightarrow> Inr gid)
              (\<lambda>gid. bind_result
                 (case map_of query_string ''sheet'' of
                    Some vals \<Rightarrow> bind_result (py_last vals) (\<lambda>v. Inr (Some v))
                  | None \<Rightarrow> Inr sheet)
                 (\<lambda>sheet. bind_result
                    (if startswith (fragment parts) ''gid=''
                     then py_int (drop (length ''gid='') (fragment parts))
                     else Inr gid)
                    (\<lambda>gid. Inr (headers, gid, sheet))))))"

text \<open>\<open>get_url\<close>, lines 104 to 110: the dictionary \<open>args\<close>.\<close>

definition get_url_args :: "int \<Rightarrow> int \<Rightarrow> string option \<Rightarrow> (string \<times> arg) list" where
  "get_url_args headers gid sheet =
     (let args = [];
          args = (if headers > 0 then AList.update ''headers'' (IntArg headers) args else args)
      in case sheet of
           Some name \<Rightarrow> AList.update ''sheet'' (StrArg name) args
         | None \<Rightarrow> AList.update ''gid'' (IntArg gid) args)"

definition get_url :: "string \<Rightarrow> int \<Rightarrow> int \<Rightarrow> string option \<Rightarrow> error + string" where
  "get_url uri headers gid sheet =
     bind_result (urlparse uri)
       (\<lambda>parts.
          let p = get_url_path parts
          in bind_result (get_url_resolve parts headers gid sheet)
               (\<lambda>(headers, gid, sheet).
                  let args = get_url_args headers gid sheet;
                      prm = urlencode args
                  in Inr (urlunparse (scheme parts, netloc parts, p, [], prm, []))))"

text \<open>
  The enumeration \<open>SyncMode\<close> is declared in \<open>shillelagh/adapters/api/gsheets/types.py\<close>,
  which is not among the sources; it is a parameter here, the list of its members as
  pairs of name and value in the order of their definition. \<open>SyncMode(v)\<close> is the first
  member with the value \<open>v\<close> and raises \<open>ValueError\<close> when there is none;
  \<open>SyncMode[name]\<close> is the member of that name and raises \<open>KeyError\<close> when there is
  none.
\<close>

type_synonym enum = "(string \<times> int) list"

definition enum_by_value :: "enum \<Rightarrow> int \<Rightarrow> error + string \<times> int" where
  "enum_by_value members v =
     (case find (\<lambda>m. snd m = v) members of None \<Rightarrow> Inl ValueError | Some m \<Rightarrow> Inr m)"

definition enum_by_name :: "enum \<Rightarrow> string \<Rightarrow> error + string \<times> int" where
  "enum_by_name members name =
     (case map_of members name of
        None \<Rightarrow> Inl KeyError
      | Some v \<Rightarrow> (case find (\<lambda>m. snd m = v) members of
                     None \<Rightarrow> Inl KeyError | Some m \<Rightarrow> Inr m))"

definition get_sync_mode :: "enum \<Rightarrow> string \<Rightarrow> error + (string \<times> int) option" where
  "get_sync_mode SyncMode uri =
     bind_result (urlparse uri)
       (\<lambda>parts.
          let query_string = parse_qs (query parts)
          in case map_of query_string ''sync_mode'' of
               None \<Rightarrow> Inr None
             | Some vals \<Rightarrow>
                 bind_result (py_last vals)
                   (\<lambda>v. let parameter = upper v
                        in case enum_by_name SyncMode parameter of
                             Inr sync_mode \<Rightarrow> Inr (Some sync_mode)
                           | Inl e \<Rightarrow>
                               (if e = KeyError
                                then (case bind_result (py_int parameter) (enum_by_value SyncMode) of
                                        Inr sync_mode \<Rightarrow> Inr (Some sync_mode)
                                      | Inl e' \<Rightarrow>
                                          (if e' = ValueError
                                           then Inl (ProgrammingError
                                                       (''Invalid sync mode: '' @ parameter))
                                           else Inl e'))
                                else Inl e)))"

subsection \<open>Reading the result\<close>


text \<open>The values that a query string gives to a name, in the order of the fields.\<close>

definition query_values :: "string \<Rightarrow> string \<Rightarrow> string list" where
  "query_values q k = map snd (filter (\<lambda>p. fst p = k) (parse_qsl q))"

text \<open>
  The labelled values of a row in the order in which \<open>get_values_from_row\<close> stores them:
  for every item of the row whose field has a column and a label, the label and the
  unformatted value.
\<close>

definition placed ::
  "(string \<times> 'v) list \<Rightarrow> (string \<rightharpoonup> ('v \<Rightarrow> 'w)) \<Rightarrow> (string \<times> string) list
     \<Rightarrow> (string \<times> 'w) list" where
  "placed row columns column_map =
     concat (map (\<lambda>(k, v).
        case columns k of
          None \<Rightarrow> []
        | Some field \<Rightarrow>
            (case map_of column_map k of None \<Rightarrow> [] | Some label \<Rightarrow> [(label, field v)]))
       row)"

section \<open>Properties\<close>

subsection \<open>The label generator\<close>

lemma upper_nth_0: "ascii_uppercase ! 0 = CHR ''A''"
  by (simp add: ascii_uppercase_def)

lemma upper_len: "length ascii_uppercase = 26"
  by (simp add: ascii_uppercase_def)

lemma gen_letters_step_pair:
  "gen_letters_step (letters, index) =
     (if Suc index = 26 then ((letters[length letters - 1 := ''A'']) @ [''A''], 0)
      else (letters[length letters - 1 := [ascii_uppercase ! Suc index]], Suc index))"
  by (simp add: gen_letters_step_def upper_len)

lemma update_last_snoc: "(xs @ [x])[length (xs @ [x]) - 1 := y] = xs @ [y]"
  by simp

text \<open>
  The state of the generator after \<open>n\<close> rounds: only the last letter is ever rewritten,
  and every 26 rounds one more \<open>A\<close> is appended.
\<close>

lemma gen_letters_state:
  "(gen_letters_step ^^ n) gen_letters_init =
     (replicate (n div 26) ''A'' @ [[ascii_uppercase ! (n mod 26)]], n mod 26)"
proof (induction n)
  case 0
  show ?case by (simp add: gen_letters_init_def upper_nth_0)
next
  case (Suc n)
  let ?ls = "replicate (n div 26) ''A''"
  have st: "(gen_letters_step ^^ Suc n) gen_letters_init =
            gen_letters_step (?ls @ [[ascii_uppercase ! (n mod 26)]], n mod 26)"
    by (simp add: Suc)
  show ?case
  proof (cases "Suc (n mod 26) = 26")
    case True
    then have d: "Suc n div 26 = Suc (n div 26)" and m: "Suc n mod 26 = 0"
      by (simp_all add: div_Suc mod_Suc)
    have "gen_letters_step (?ls @ [[ascii_uppercase ! (n mod 26)]], n mod 26)
            = ((?ls @ [''A'']) @ [''A''], 0)"
      unfolding gen_letters_step_pair update_last_snoc using True by simp
    also have "(?ls @ [''A'']) @ [''A''] = replicate (Suc (n div 26)) ''A'' @ [[ascii_uppercase ! 0]]"
      by (simp add: upper_nth_0 replicate_append_same)
    finally show ?thesis
      unfolding st d m .
  next
    case False
    then have d: "Suc n div 26 = n div 26" and m: "Suc n mod 26 = Suc (n mod 26)"
      by (simp_all add: div_Suc mod_Suc)
    have "gen_letters_step (?ls @ [[ascii_uppercase ! (n mod 26)]], n mod 26)
            = (?ls @ [[ascii_uppercase ! Suc (n mod 26)]], Suc (n mod 26))"
      unfolding gen_letters_step_pair update_last_snoc using False by simp
    then show ?thesis
      unfolding st d m .
  qed
qed

lemma gen_letters_nth_closed:
  "gen_letters_nth n = replicate (n div 26) CHR ''A'' @ [ascii_uppercase ! (n mod 26)]"
  by (simp add: gen_letters_nth_def gen_letters_state gen_letters_yield_def)

lemma gen_letters_from_nth:
  "gen_letters_from n ((gen_letters_step ^^ k) gen_letters_init) = map gen_letters_nth [k..<k + n]"
proof (induction n arbitrary: k)
  case 0
  show ?case by simp
next
  case (Suc n)
  have "gen_letters_from n ((gen_letters_step ^^ Suc k) gen_letters_init)
          = map gen_letters_nth [Suc k..<Suc k + n]"
    by (rule Suc.IH)
  then show ?case
    by (simp add: gen_letters_nth_def upt_rec[of k])
qed

lemma islice_gen_letters_nth: "islice_gen_letters n = map gen_letters_nth [0..<n]"
  using gen_letters_from_nth[of n 0] by (simp add: islice_gen_letters_def)

lemma gen_letters_nth_52: "gen_letters_nth 52 = ''AAA''"
proof -
  have "(52::nat) div 26 = 2" "(52::nat) mod 26 = 0" by simp_all
  then show ?thesis
    by (simp add: gen_letters_nth_closed upper_nth_0 numeral_2_eq_2)
qed

text \<open>
  Claim C1 asks for the bijective base-26 label at every index, with \<open>BA\<close> at index 52.
  The generator never carries into an earlier position: the label it yields at index 52,
  the 53rd element of the sequence, is \<open>AAA\<close>.
\<close>

theorem gen_letters_index_52:
  "gen_letters_nth 52 = ''AAA'' \<and> islice_gen_letters 53 ! 52 = ''AAA'' \<and>
   gen_letters_nth 52 \<noteq> ''BA''"
  by (simp add: islice_gen_letters_nth gen_letters_nth_52)

subsection \<open>The label decoder\<close>

lemma str_index_mem:
  "c \<in> set s \<Longrightarrow> \<exists>i. str_index s c = Inr i \<and> i < length s \<and> s ! i = c"
  by (induction s) auto

lemma str_index_not_mem: "c \<notin> set s \<Longrightarrow> str_index s c = Inl ValueError"
  by (induction s) auto

lemma traverse_ok:
  "(\<And>x. x \<in> set xs \<Longrightarrow> \<exists>y. f x = Inr y)
     \<Longrightarrow> \<exists>ys. traverse f xs = Inr ys \<and> length ys = length xs"
proof (induction xs)
  case Nil
  show ?case by simp
next
  case (Cons x xs)
  from Cons.prems obtain y where y: "f x = Inr y" by auto
  from Cons obtain ys where "traverse f xs = Inr ys" "length ys = length xs" by auto
  with y show ?case by simp
qed

lemma get_index_from_letters_upper:
  assumes "set letters \<subseteq> set ascii_uppercase"
  shows "\<exists>n. get_index_from_letters letters = Inr n"
proof -
  have "\<And>x. x \<in> set letters \<Longrightarrow> \<exists>y. str_index ascii_uppercase x = Inr y"
    using assms str_index_mem by blast
  then obtain idxs where
    "traverse (\<lambda>letter. str_index ascii_uppercase letter) letters = Inr idxs"
    using traverse_ok[of letters "\<lambda>letter. str_index ascii_uppercase letter"] by blast
  then show ?thesis
    by (simp add: get_index_from_letters_def)
qed

lemma get_index_from_letters_AAA: "get_index_from_letters ''AAA'' = Inr 702"
  by (simp add: get_index_from_letters_def ascii_uppercase_def)

lemma str_index_nth: "distinct s \<Longrightarrow> i < length s \<Longrightarrow> str_index s (s ! i) = Inr i"
proof (induction s arbitrary: i)
  case Nil
  then show ?case by simp
next
  case (Cons x xs)
  show ?case
  proof (cases i)
    case 0
    then show ?thesis by simp
  next
    case (Suc j)
    with Cons.prems have "xs ! j \<in> set xs" "x \<notin> set xs" by auto
    then have "x \<noteq> xs ! j" by auto
    with Cons Suc show ?thesis by simp
  qed
qed

lemma upper_distinct: "distinct ascii_uppercase"
  by (simp add: ascii_uppercase_def)

lemma upper_index: "i < 26 \<Longrightarrow> str_index ascii_uppercase (ascii_uppercase ! i) = Inr i"
  using str_index_nth[OF upper_distinct, of i] by (simp add: upper_len)

text \<open>Up to index 51 no carry is needed, and the decoder inverts the generator.\<close>

lemma roundtrip_below_52:
  assumes "n < 52"
  shows "get_index_from_letters (gen_letters_nth n) = Inr (int n)"
proof (cases "n < 26")
  case True
  then show ?thesis
    by (simp add: gen_letters_nth_closed get_index_from_letters_def upper_index upper_len)
next
  case False
  with assms have d: "n div 26 = 1" and m: "n mod 26 = n - 26" and lt: "n - 26 < 26"
    by (simp_all add: div_eq_dividend_iff mod_if)
  have a: "str_index ascii_uppercase CHR ''A'' = Inr 0"
    by (simp add: ascii_uppercase_def)
  from False show ?thesis
    by (simp add: gen_letters_nth_closed get_index_from_letters_def d m upper_index[OF lt] a
        upper_len)
qed

text \<open>
  Claim C2 asks that decoding the label of index \<open>n\<close> gives \<open>n\<close> back for every \<open>n\<close> up to
  20000. At index 52 the generator yields \<open>AAA\<close>, which the decoder maps to 702.
\<close>

theorem roundtrip_index_52:
  "get_index_from_letters (gen_letters_nth 52) = Inr 702 \<and>
   get_index_from_letters (gen_letters_nth 52) \<noteq> Inr 52"
  by (simp add: gen_letters_nth_52 get_index_from_letters_AAA)

text \<open>
  Claim C10: \<open>get_index_from_letters\<close> raises no error on a string of uppercase letters,
  the empty string included, and returns \<open>-1\<close> for the empty string.
\<close>

theorem get_index_from_letters_total:
  "get_index_from_letters [] = Inr (- 1) \<and>
   (set letters \<subseteq> set ascii_uppercase \<longrightarrow> (\<exists>n. get_index_from_letters letters = Inr n))"
  using get_index_from_letters_upper[of letters]
  by (simp add: get_index_from_letters_def)

theorem get_index_from_letters_total_witness:
  "set ''AA'' \<subseteq> set ascii_uppercase \<and> (\<exists>n. get_index_from_letters ''AA'' = Inr n) \<and>
   get_index_from_letters ''AA'' = Inr 26"
proof -
  have s: "set ''AA'' \<subseteq> set ascii_uppercase"
    by (simp add: ascii_uppercase_def)
  have v: "get_index_from_letters ''AA'' = Inr 26"
    by (simp add: get_index_from_letters_def ascii_uppercase_def)
  from s v get_index_from_letters_total[of "''AA''"] show ?thesis
    by blast
qed

subsection \<open>Row materialisation\<close>

lemma foldl_max_mem:
  "foldl (\<lambda>m item. if m < item then item else m) (x::string) xs \<in> set (x # xs)"
proof (induction xs arbitrary: x)
  case Nil
  show ?case by simp
next
  case (Cons y ys)
  show ?case
    using Cons.IH[of "if x < y then y else x"] by (auto split: if_splits)
qed

lemma py_max_nonempty:
  "xs \<noteq> [] \<Longrightarrow> \<exists>m. py_max xs = Inr m \<and> m \<in> set xs"
  using foldl_max_mem by (cases xs) (auto simp: py_max_def)

text \<open>Looking a key up in a comprehension finds the item that was stored last.\<close>

lemma map_of_foldl_update:
  "map_of (foldl (\<lambda>d (k, v). AList.update k v d) d xs) = map_of (rev xs @ d)"
proof (induction xs arbitrary: d)
  case Nil
  show ?case by simp
next
  case (Cons p xs)
  obtain k v where p: "p = (k, v)" by (cases p)
  show ?case
    by (simp add: p Cons.IH map_of_append update_conv')
qed

lemma map_of_dict_of: "map_of (dict_of xs) = map_of (rev xs)"
  by (simp add: dict_of_def map_of_foldl_update)

lemma update_fresh: "k \<notin> fst ` set d \<Longrightarrow> AList.update k v d = d @ [(k, v)]"
  by (induction d) auto

lemma foldl_update_distinct:
  "distinct (map fst (d @ xs)) \<Longrightarrow> foldl (\<lambda>d (k, v). AList.update k v d) d xs = d @ xs"
proof (induction xs arbitrary: d)
  case Nil
  show ?case by simp
next
  case (Cons p xs)
  obtain k v where p: "p = (k, v)" by (cases p)
  from Cons.prems have fresh: "k \<notin> fst ` set d" by (auto simp: p)
  from Cons.prems have "distinct (map fst ((d @ [(k, v)]) @ xs))" by (simp add: p)
  from Cons.IH[OF this] show ?case
    by (simp add: p update_fresh[OF fresh])
qed

lemma dict_of_distinct: "distinct (map fst xs) \<Longrightarrow> dict_of xs = xs"
  using foldl_update_distinct[of "[]" xs] by (simp add: dict_of_def)

lemma unformatted_keys:
  "fst ` set (concat (map (\<lambda>(k, v).
      case columns k of Some field \<Rightarrow> [(k, field v)] | None \<Rightarrow> []) row))
     \<subseteq> fst ` set row"
  by (induction row) (auto split: option.splits intro: rev_image_eqI)

lemma unformatted_distinct:
  "distinct (map fst row) \<Longrightarrow>
   distinct (map fst (concat (map (\<lambda>(k, v).
      case columns k of Some field \<Rightarrow> [(k, field v)] | None \<Rightarrow> []) row)))"
proof (induction row)
  case Nil
  show ?case by simp
next
  case (Cons p row)
  obtain k v where p: "p = (k, v)" by (cases p)
  from Cons.prems have "k \<notin> fst ` set row" by (auto simp: p)
  with unformatted_keys[of columns row] have
    "k \<notin> fst ` set (concat (map (\<lambda>(k, v).
        case columns k of Some field \<Rightarrow> [(k, field v)] | None \<Rightarrow> []) row))"
    by blast
  with Cons show ?case
    by (auto simp: p split: option.splits)
qed

lemma labelled_placed:
  "concat (map (\<lambda>(k, v). case map_of column_map k of Some label \<Rightarrow> [(label, v)] | None \<Rightarrow> [])
     (concat (map (\<lambda>(k, v). case columns k of Some field \<Rightarrow> [(k, field v)] | None \<Rightarrow> []) row)))
   = placed row columns column_map"
  by (induction row) (auto simp: placed_def split: option.splits)

text \<open>
  The row that is returned, for a row dictionary (distinct keys): position \<open>j\<close> holds what
  the last item stored under the \<open>j\<close>-th generated label carries, unless \<open>islice\<close>
  refuses the width.
\<close>

lemma get_values_from_row_values:
  assumes "distinct (map fst row)"
  shows "get_values_from_row row columns column_map =
           (case py_max (map snd column_map) of
              Inl e \<Rightarrow> Inl e
            | Inr m \<Rightarrow> (case get_index_from_letters m of
                          Inl e \<Rightarrow> Inl e
                        | Inr i \<Rightarrow>
                            if i + 1 < 0 \<or> sys_maxsize < i + 1 then Inl ValueError
                            else Inr (map (\<lambda>j. map_of (rev (placed row columns column_map))
                                                 (gen_letters_nth j)) [0..<nat (i + 1)])))"
  by (simp add: get_values_from_row_def dict_of_distinct[OF unformatted_distinct[OF assms]]
      labelled_placed map_of_dict_of islice_gen_letters_nth o_def
      split: sum.splits)

lemmas row_eval = get_values_from_row_def dict_of_def py_max_def get_index_from_letters_def
  ascii_uppercase_def islice_gen_letters_def gen_letters_init_def gen_letters_step_def
  gen_letters_yield_def sys_maxsize_def

text \<open>The example of the docstring, with fields that leave the values as they are.\<close>

lemma get_values_from_row_example:
  "get_values_from_row [(''country'', Inl ''BR''), (''cnt'', Inr (10::int))]
     [''country'' \<mapsto> id, ''cnt'' \<mapsto> id] [(''country'', ''A''), (''cnt'', ''C'')]
   = Inr [Some (Inl ''BR''), None, Some (Inr 10)]"
  by (simp add: row_eval eval_nat_numeral)

text \<open>
  \<open>max\<close> compares the labels as strings, so \<open>B\<close> is greater than \<open>AA\<close>: the row is cut
  after column \<open>B\<close> and the value for column \<open>AA\<close> is lost.
\<close>

lemma get_values_from_row_lexicographic_max:
  "get_values_from_row [(''a'', 1::int), (''b'', 2)] [''a'' \<mapsto> id, ''b'' \<mapsto> id]
     [(''a'', ''B''), (''b'', ''AA'')] = Inr [None, Some 1]"
  by (simp add: row_eval eval_nat_numeral)

lemma gen_letters_nth_not_BA: "gen_letters_nth i \<noteq> ''BA''"
proof (cases "i div 26")
  case 0
  then show ?thesis by (simp add: gen_letters_nth_closed)
next
  case (Suc k)
  then show ?thesis by (simp add: gen_letters_nth_closed)
qed

lemma get_index_from_letters_BA: "get_index_from_letters ''BA'' = Inr 52"
  by (simp add: get_index_from_letters_def ascii_uppercase_def)

text \<open>
  Claim C3 asks that the value of the field mapped to letter \<open>L\<close> sits at the index that
  \<open>L\<close> decodes to. For a column map with the single letter \<open>BA\<close> the row has the 53
  positions the claim asks for, but the generator never yields \<open>BA\<close>, so the value of the
  field is not placed at index 52, nor anywhere: all positions are empty.
\<close>

theorem get_values_from_row_BA:
  "get_values_from_row [(''f'', v)] [''f'' \<mapsto> field] [(''f'', ''BA'')] = Inr (replicate 53 None)"
proof -
  have r: "get_values_from_row [(''f'', v)] [''f'' \<mapsto> field] [(''f'', ''BA'')]
             = Inr (map (map_of [(''BA'', field v)]) (map gen_letters_nth [0..<53]))"
    by (simp add: get_values_from_row_def dict_of_def py_max_def get_index_from_letters_BA
        islice_gen_letters_nth sys_maxsize_def del: upt_Suc map_map map_of.simps)
  have "map (map_of [(''BA'', field v)]) (map gen_letters_nth [0..<53]) = replicate 53 None"
    by (rule nth_equalityI) (simp_all add: gen_letters_nth_not_BA del: upt_Suc)
  with r show ?thesis by simp
qed

text \<open>
  Claim C4 asks that an empty column map and a column map with a repeated letter are
  rejected with a configuration error. A column map in which the fields \<open>a\<close> and \<open>b\<close> both
  have the letter \<open>A\<close> is accepted, and the value of \<open>b\<close> overwrites the value of \<open>a\<close>.
\<close>

theorem get_values_from_row_collision:
  "get_values_from_row [(''a'', 1::int), (''b'', 2)] [''a'' \<mapsto> id, ''b'' \<mapsto> id]
     [(''a'', ''A''), (''b'', ''A'')] = Inr [Some 2]"
  by (simp add: row_eval eval_nat_numeral)

text \<open>The decoder in positional form, and the labels with an index below 52.\<close>

lemma str_index_Inr: "str_index s c = Inr i \<Longrightarrow> i < length s \<and> s ! i = c"
  by (induction s arbitrary: i) (auto split: if_splits sum.splits)

lemma upper_index_Inr:
  "str_index ascii_uppercase c = Inr i \<Longrightarrow> i < 26 \<and> ascii_uppercase ! i = c"
  using str_index_Inr[of ascii_uppercase c i] by (simp add: upper_len)

lemma traverse_Cons:
  "traverse f (x # xs) = Inr ys \<Longrightarrow> \<exists>y ys'. ys = y # ys' \<and> f x = Inr y \<and> traverse f xs = Inr ys'"
  by (auto split: sum.splits)

lemma enumerate_shift_sum:
  "sum_list (map (\<lambda>(i, v). v * (b::int) ^ i) (enumerate (Suc n) xs))
     = b * sum_list (map (\<lambda>(i, v). v * b ^ i) (enumerate n xs))"
  by (induction xs arbitrary: n) (simp_all add: algebra_simps)

text \<open>The sum of the decoder in Horner form, most significant digit first.\<close>

lemma positional_horner:
  "sum_list (map (\<lambda>(i, v). v * (b::int) ^ i) (enumerate 0 (rev ds)))
     = foldl (\<lambda>a d. a * b + d) 0 ds"
proof (induction ds rule: rev_induct)
  case Nil
  show ?case by simp
next
  case (snoc d ds)
  then show ?case
    by (simp add: enumerate_shift_sum[of b 0] algebra_simps)
qed

lemma horner_ge: "0 \<le> a \<Longrightarrow> \<forall>d \<in> set ds. 0 \<le> d \<Longrightarrow> a \<le> foldl (\<lambda>a d. a * 26 + d) (a::int) ds"
proof (induction ds arbitrary: a)
  case Nil
  show ?case by simp
next
  case (Cons d ds)
  then have "a * 26 + d \<le> foldl (\<lambda>a d. a * 26 + d) (a * 26 + d) ds" by simp
  with Cons.prems show ?case by simp
qed

lemma get_index_from_letters_horner:
  "traverse (\<lambda>letter. str_index ascii_uppercase letter) letters = Inr idxs \<Longrightarrow>
   get_index_from_letters letters = Inr (foldl (\<lambda>a d. a * 26 + d) 0 (map (\<lambda>i. int i + 1) idxs) - 1)"
  by (simp add: get_index_from_letters_def positional_horner rev_map[symmetric] upper_len
      del: rev_map)

text \<open>A label of three or more letters has an index of at least 702.\<close>

lemma get_index_from_letters_long:
  assumes "get_index_from_letters (c1 # c2 # c3 # rest) = Inr n"
  shows "702 \<le> n"
proof -
  from assms obtain idxs where t:
    "traverse (\<lambda>letter. str_index ascii_uppercase letter) (c1 # c2 # c3 # rest) = Inr idxs"
    by (cases "traverse (\<lambda>letter. str_index ascii_uppercase letter) (c1 # c2 # c3 # rest)")
       (simp_all add: get_index_from_letters_def)
  then obtain i1 i2 i3 r where idxs: "idxs = i1 # i2 # i3 # r"
    by (auto split: sum.splits)
  let ?a = "((int i1 + 1) * 26 + (int i2 + 1)) * 26 + (int i3 + 1)"
  have "?a \<le> foldl (\<lambda>a d. a * 26 + d) ?a (map (\<lambda>i. int i + 1) r)"
    by (rule horner_ge) auto
  moreover have "703 \<le> ?a" by simp
  moreover have "n = foldl (\<lambda>a d. a * 26 + d) 0 (map (\<lambda>i. int i + 1) idxs) - 1"
    using assms get_index_from_letters_horner[OF t] by simp
  ultimately show ?thesis
    by (simp add: idxs)
qed

text \<open>Below index 52 the generator yields the one label that the decoder maps to the index.\<close>

lemma gen_letters_nth_decoded:
  assumes "get_index_from_letters letters = Inr (int j)" and "j < 52"
  shows "gen_letters_nth j = letters"
proof (cases letters)
  case Nil
  with assms show ?thesis by (simp add: get_index_from_letters_def)
next
  case c1: (Cons c1 l1)
  show ?thesis
  proof (cases l1)
    case Nil
    from assms(1) obtain i where i: "str_index ascii_uppercase c1 = Inr i"
      by (cases "str_index ascii_uppercase c1") (simp_all add: c1 get_index_from_letters_def)
    with assms(1) have "j = i"
      by (simp add: c1 Nil get_index_from_letters_def)
    with upper_index_Inr[OF i] show ?thesis
      by (simp add: c1 Nil gen_letters_nth_closed)
  next
    case c2: (Cons c2 l2)
    show ?thesis
    proof (cases l2)
      case Nil
      from assms(1) obtain i1 where i1: "str_index ascii_uppercase c1 = Inr i1"
        by (cases "str_index ascii_uppercase c1") (simp_all add: c1 get_index_from_letters_def)
      from assms(1) i1 obtain i2 where i2: "str_index ascii_uppercase c2 = Inr i2"
        by (cases "str_index ascii_uppercase c2")
           (simp_all add: c1 c2 get_index_from_letters_def)
      note i = i1 i2
      from assms(1) have v: "int j = (int i2 + 1) + (int i1 + 1) * 26 - 1"
        by (simp add: c1 c2 Nil get_index_from_letters_def upper_len i)
      from upper_index_Inr[OF i(1)] upper_index_Inr[OF i(2)]
      have b: "i1 < 26" "i2 < 26" "ascii_uppercase ! i1 = c1" "ascii_uppercase ! i2 = c2"
        by simp_all
      from v assms(2) have "i1 = 0" by arith
      with v have j: "j = 26 + i2" by arith
      with b have d: "j div 26 = 1" and m: "j mod 26 = i2" by simp_all
      from b \<open>i1 = 0\<close> have "c1 = CHR ''A''" by (simp add: upper_nth_0)
      with b show ?thesis
        by (simp add: c1 c2 Nil gen_letters_nth_closed d m)
    next
      case (Cons c3 l3)
      with assms(1) have "702 \<le> int j"
        using get_index_from_letters_long[of c1 c2 c3 l3 "int j"] by (simp add: c1 c2)
      with assms(2) show ?thesis by simp
    qed
  qed
qed

lemma placed_labels: "fst ` set (placed row columns column_map) \<subseteq> snd ` set column_map"
proof
  fix l
  assume "l \<in> fst ` set (placed row columns column_map)"
  then obtain k where "map_of column_map k = Some l"
    by (auto simp: placed_def split: option.splits)
  then have "(k, l) \<in> set column_map" by (rule map_of_SomeD)
  then show "l \<in> snd ` set column_map" by force
qed

lemma sys_maxsize_52: "int w + 1 \<le> sys_maxsize" if "w < 52"
  using that by (simp add: sys_maxsize_def)

lemma get_values_from_row_placement:
  assumes "distinct (map fst row)"
    and "py_max (map snd column_map) = Inr m"
    and "get_index_from_letters m = Inr (int w)" and "w < 52"
    and "\<forall>l \<in> set (map snd column_map). \<exists>j \<le> w. get_index_from_letters l = Inr (int j)"
  shows "get_values_from_row row columns [] = Inl ValueError \<and>
         (\<exists>vs. get_values_from_row row columns column_map = Inr vs \<and> length vs = w + 1 \<and>
            (\<forall>l \<in> set (map snd column_map). \<forall>j. get_index_from_letters l = Inr (int j) \<longrightarrow>
               vs ! j = map_of (rev (placed row columns column_map)) l) \<and>
            (\<forall>j < length vs.
               (\<forall>l \<in> set (map snd column_map). get_index_from_letters l \<noteq> Inr (int j)) \<longrightarrow>
               vs ! j = None))"
proof (intro conjI)
  show "get_values_from_row row columns [] = Inl ValueError"
    by (simp add: get_values_from_row_def py_max_def)
next
  let ?M = "map_of (rev (placed row columns column_map))"
  let ?vs = "map (\<lambda>j. ?M (gen_letters_nth j)) [0..<w + 1]"
  have n: "nat (int w + 1) = w + 1" by simp
  have r: "get_values_from_row row columns column_map = Inr ?vs"
    using sys_maxsize_52[OF assms(4)]
    by (simp add: get_values_from_row_values[OF assms(1)] assms(2,3) n del: upt_Suc)
  have mapped: "?vs ! j = ?M l"
    if "l \<in> set (map snd column_map)" "get_index_from_letters l = Inr (int j)" for l j
  proof -
    from assms(5) that(1) obtain j' where "j' \<le> w" "get_index_from_letters l = Inr (int j')"
      by blast
    with that(2) have j: "j \<le> w" by simp
    with assms(4) have "gen_letters_nth j = l"
      by (intro gen_letters_nth_decoded[OF that(2)]) simp
    with j show ?thesis by (simp del: upt_Suc)
  qed
  have unmapped: "?vs ! j = None"
    if "j < length ?vs" "\<forall>l \<in> set (map snd column_map). get_index_from_letters l \<noteq> Inr (int j)"
    for j
  proof -
    from that(1) have j: "j < w + 1" by simp
    with assms(4) have "get_index_from_letters (gen_letters_nth j) = Inr (int j)"
      by (intro roundtrip_below_52) simp
    with that(2) have "gen_letters_nth j \<notin> snd ` set column_map" by auto
    with placed_labels[of row columns column_map]
    have "gen_letters_nth j \<notin> fst ` set (rev (placed row columns column_map))" by auto
    then have "?M (gen_letters_nth j) = None"
      by (simp add: map_of_eq_None_iff)
    with j show ?thesis by (simp del: upt_Suc)
  qed
  show "\<exists>vs. get_values_from_row row columns column_map = Inr vs \<and> length vs = w + 1 \<and>
            (\<forall>l \<in> set (map snd column_map). \<forall>j. get_index_from_letters l = Inr (int j) \<longrightarrow>
               vs ! j = ?M l) \<and>
            (\<forall>j < length vs.
               (\<forall>l \<in> set (map snd column_map). get_index_from_letters l \<noteq> Inr (int j)) \<longrightarrow>
               vs ! j = None)"
  proof (intro exI[of _ ?vs] conjI)
    show "get_values_from_row row columns column_map = Inr ?vs" by (rule r)
    show "length ?vs = w + 1" by simp
    show "\<forall>l \<in> set (map snd column_map). \<forall>j. get_index_from_letters l = Inr (int j) \<longrightarrow>
            ?vs ! j = ?M l"
      using mapped by blast
    show "\<forall>j < length ?vs.
            (\<forall>l \<in> set (map snd column_map). get_index_from_letters l \<noteq> Inr (int j)) \<longrightarrow>
            ?vs ! j = None"
      using unmapped by blast
  qed
qed

text \<open>
  Claim C4 as amended: \<open>get_values_from_row\<close> does not validate the column map. On an
  empty column map it fails with the \<open>ValueError\<close> of \<open>max\<close>. A column map in which
  several fields have the same letter is accepted like any other: for a row dictionary and
  a column map in which the label \<open>m\<close> that \<open>max\<close> selects has an index \<open>w\<close> below 52
  and no label has a greater index, the call returns a row of \<open>w + 1\<close> values; the
  position that a label of the column map decodes to holds the value stored last under
  that label, that is the unformatted value of the last field, in the iteration order of
  the row, that has this label (\<open>None\<close> when the row has no such field), and every other
  position holds \<open>None\<close>.
\<close>

theorem get_values_from_row_unchecked:
  "get_values_from_row row columns [] = Inl ValueError \<and>
   (distinct (map fst row) \<and> py_max (map snd column_map) = Inr m \<and>
    get_index_from_letters m = Inr (int w) \<and> w < 52 \<and>
    (\<forall>l \<in> set (map snd column_map). \<exists>j \<le> w. get_index_from_letters l = Inr (int j)) \<longrightarrow>
    (\<exists>vs. get_values_from_row row columns column_map = Inr vs \<and> length vs = w + 1 \<and>
       (\<forall>l \<in> set (map snd column_map). \<forall>j. get_index_from_letters l = Inr (int j) \<longrightarrow>
          vs ! j = map_of (rev (placed row columns column_map)) l) \<and>
       (\<forall>j < length vs.
          (\<forall>l \<in> set (map snd column_map). get_index_from_letters l \<noteq> Inr (int j)) \<longrightarrow>
          vs ! j = None)))"
  using get_values_from_row_placement[of row column_map m w columns]
  by (simp add: get_values_from_row_def py_max_def)

lemma decode_A_C:
  "get_index_from_letters ''A'' = Inr (int 0)" "get_index_from_letters ''C'' = Inr (int 2)"
  by (simp_all add: get_index_from_letters_def ascii_uppercase_def)

theorem get_values_from_row_unchecked_witness:
  "get_values_from_row [(''a'', 1::int), (''b'', 2), (''c'', 3)]
     [''a'' \<mapsto> id, ''b'' \<mapsto> id, ''c'' \<mapsto> id] [] = Inl ValueError \<and>
   get_values_from_row [(''a'', 1::int), (''b'', 2), (''c'', 3)]
     [''a'' \<mapsto> id, ''b'' \<mapsto> id, ''c'' \<mapsto> id]
     [(''a'', ''A''), (''b'', ''C''), (''c'', ''A'')] = Inr [Some 3, None, Some 2]"
proof -
  let ?row = "[(''a'', 1::int), (''b'', 2), (''c'', 3)]"
  let ?columns = "[''a'' \<mapsto> id, ''b'' \<mapsto> id, ''c'' \<mapsto> (id :: int \<Rightarrow> int)]"
  let ?cm = "[(''a'', ''A''), (''b'', ''C''), (''c'', ''A'')]"
  have 1: "distinct (map fst ?row)" by simp
  have 2: "py_max (map snd ?cm) = Inr ''C''" by (simp add: py_max_def)
  have 3: "(2::nat) < 52" by simp
  have 4: "\<forall>l \<in> set (map snd ?cm). \<exists>j \<le> 2. get_index_from_letters l = Inr (int j)"
    using decode_A_C by auto
  have p: "placed ?row ?columns ?cm = [(''A'', 1), (''C'', 2), (''A'', 3)]"
    by (simp add: placed_def)
  note t = get_values_from_row_unchecked[of ?row ?columns ?cm "''C''" 2]
  from t have e: "get_values_from_row ?row ?columns [] = Inl ValueError"
    by (rule conjunct1)
  from t 1 2 decode_A_C(2) 3 4 obtain vs where r: "get_values_from_row ?row ?columns ?cm = Inr vs"
    and l: "length vs = 2 + 1"
    and mapped: "\<forall>l \<in> set (map snd ?cm). \<forall>j. get_index_from_letters l = Inr (int j) \<longrightarrow>
                   vs ! j = map_of (rev (placed ?row ?columns ?cm)) l"
    and unmapped: "\<forall>j < length vs.
                   (\<forall>l \<in> set (map snd ?cm). get_index_from_letters l \<noteq> Inr (int j)) \<longrightarrow>
                   vs ! j = None"
    by blast
  from mapped decode_A_C(1) have "vs ! 0 = map_of (rev (placed ?row ?columns ?cm)) ''A''"
    by simp
  then have v0: "vs ! 0 = Some 3"
    by (simp add: p)
  from mapped decode_A_C(2) have "vs ! 2 = map_of (rev (placed ?row ?columns ?cm)) ''C''"
    by simp
  then have v2: "vs ! 2 = Some 2"
    by (simp add: p)
  have "\<forall>l \<in> set (map snd ?cm). get_index_from_letters l \<noteq> Inr (int 1)"
    using decode_A_C by simp
  with unmapped l have v1: "vs ! 1 = None"
    by simp
  from l obtain x y z where vs: "vs = [x, y, z]"
    by (auto simp: length_Suc_conv numeral_3_eq_3)
  with v0 v1 v2 have "vs = [Some 3, None, Some 2]" by simp
  with e r show ?thesis by simp
qed

subsection \<open>Query strings\<close>

lemma map_of_parse_fold:
  "map_of (foldl (\<lambda>parsed_result (name, val).
              case map_of parsed_result name of
                Some vals \<Rightarrow> AList.update name (vals @ [val]) parsed_result
              | None \<Rightarrow> AList.update name [val] parsed_result) d pairs) k
   = (if map snd (filter (\<lambda>p. fst p = k) pairs) = [] then map_of d k
      else Some ((case map_of d k of None \<Rightarrow> [] | Some vs \<Rightarrow> vs)
                 @ map snd (filter (\<lambda>p. fst p = k) pairs)))"
proof (induction pairs arbitrary: d)
  case Nil
  show ?case by simp
next
  case (Cons p pairs)
  obtain n v where p: "p = (n, v)" by (cases p)
  show ?case
    by (cases "map_of d n") (auto simp: p Cons.IH update_conv')
qed

lemma parse_qs_lookup:
  "map_of (parse_qs q) k =
     (if query_values q k = [] then None else Some (query_values q k))"
  by (simp add: parse_qs_def query_values_def map_of_parse_fold)

lemma py_last_nonempty: "xs \<noteq> [] \<Longrightarrow> py_last xs = Inr (last xs)"
  by (cases xs) (simp_all add: py_last_def)

lemma lookup_last:
  "(case map_of (parse_qs q) k of Some vals \<Rightarrow> bind_result (py_last vals) f | None \<Rightarrow> Inr d)
     = (if query_values q k = [] then Inr d else f (last (query_values q k)))"
  by (simp add: parse_qs_lookup py_last_nonempty bind_result_def)

subsection \<open>Errors and results\<close>

lemma bind_result_Inr: "bind_result (Inr x) f = f x"
  by (simp add: bind_result_def)

lemma bind_result_Inl: "bind_result (Inl e) f = Inl e"
  by (simp add: bind_result_def)

lemma int_digits_error: "int_digits cs acc = Inl e \<Longrightarrow> e = ValueError"
  by (induction cs acc rule: int_digits.induct) (auto split: option.splits if_splits list.splits)

lemma py_int_error: "py_int s = Inl e \<Longrightarrow> e = ValueError"
  by (auto simp: py_int_def Let_def split: list.splits option.splits sum.splits if_splits
      dest: int_digits_error)

lemma py_int_cases: "(\<exists>k. py_int s = Inr k) \<or> py_int s = Inl ValueError"
  using py_int_error[of s] by (cases "py_int s") auto

subsection \<open>The two halves of \<open>get_url\<close>\<close>

lemma get_url_resolve_last:
  "get_url_resolve parts headers gid sheet =
     bind_result
       (if query_values (query parts) ''headers'' = [] then Inr headers
        else py_int (last (query_values (query parts) ''headers'')))
       (\<lambda>h. bind_result
          (if query_values (query parts) ''gid'' = [] then Inr gid
           else py_int (last (query_values (query parts) ''gid'')))
          (\<lambda>g. bind_result
             (if startswith (fragment parts) ''gid='' then py_int (drop 4 (fragment parts))
              else Inr g)
             (\<lambda>g'. Inr (h, g',
                   if query_values (query parts) ''sheet'' = [] then sheet
                   else Some (last (query_values (query parts) ''sheet''))))))"
proof -
  have s: "bind_result (if query_values (query parts) ''sheet'' = [] then Inr sheet
                        else Inr (Some (last (query_values (query parts) ''sheet'')))) f
           = f (if query_values (query parts) ''sheet'' = [] then sheet
                else Some (last (query_values (query parts) ''sheet'')))"
    for f :: "string option \<Rightarrow> error + int \<times> int \<times> string option"
    by (simp add: bind_result_def)
  have l: "length ''gid='' = 4" by simp
  show ?thesis
    unfolding get_url_resolve_def Let_def lookup_last s l ..
qed

lemma get_url_parts:
  "urlparse uri = Inr parts \<Longrightarrow>
   get_url uri headers gid sheet =
     bind_result (get_url_resolve parts headers gid sheet)
       (\<lambda>(h, g, s). Inr (urlunparse (scheme parts, netloc parts, get_url_path parts, [],
                                     urlencode (get_url_args h g s), [])))"
  by (simp add: get_url_def bind_result_def Let_def)

subsection \<open>Quoting\<close>



















subsection \<open>The characters of a parsed URL\<close>











subsection \<open>Evaluation on examples\<close>

lemmas url_eval = urlparse_def url_clean_def split_scheme_def split_netloc_def split_params_def
  scheme_chars_def uses_params_def lower_def ascii_lowercase_def ascii_uppercase_def digits_def

lemmas qs_eval = query_values_def parse_qsl_def split1_def

lemmas int_eval = py_int_def strip_def whitespace_def digit_value_def digits_def


lemma urlparse_example:
  "urlparse ''https://x/y/d/ID/edit?gid=3#gid=7'' =
     Inr \<lparr>scheme = ''https'', netloc = ''x'', path = ''/y/d/ID/edit'', params = [],
          query = ''gid=3'', fragment = ''gid=7''\<rparr>"
  by (simp add: url_eval)


lemma urlparse_bad_gid_example:
  "urlparse ''https://x/y/d/ID/edit?gid=abc'' =
     Inr \<lparr>scheme = ''https'', netloc = ''x'', path = ''/y/d/ID/edit'', params = [],
          query = ''gid=abc'', fragment = []\<rparr>"
  by (simp add: url_eval)

lemma urlparse_sync_examples:
  "urlparse ''https://x/y?sync_mode=batch'' =
     Inr \<lparr>scheme = ''https'', netloc = ''x'', path = ''/y'', params = [],
          query = ''sync_mode=batch'', fragment = []\<rparr>"
  "urlparse ''https://x/y?sync_mode=BATCH'' =
     Inr \<lparr>scheme = ''https'', netloc = ''x'', path = ''/y'', params = [],
          query = ''sync_mode=BATCH'', fragment = []\<rparr>"
  "urlparse ''https://x/y?sync_mode=3'' =
     Inr \<lparr>scheme = ''https'', netloc = ''x'', path = ''/y'', params = [],
          query = ''sync_mode=3'', fragment = []\<rparr>"
  "urlparse ''https://x/y?sync_mode=7'' =
     Inr \<lparr>scheme = ''https'', netloc = ''x'', path = ''/y'', params = [],
          query = ''sync_mode=7'', fragment = []\<rparr>"
  "urlparse ''https://x/y?sync_mode=bogus'' =
     Inr \<lparr>scheme = ''https'', netloc = ''x'', path = ''/y'', params = [],
          query = ''sync_mode=bogus'', fragment = []\<rparr>"
  "urlparse ''https://x/y'' =
     Inr \<lparr>scheme = ''https'', netloc = ''x'', path = ''/y'', params = [],
          query = [], fragment = []\<rparr>"
  by (simp_all add: url_eval)

lemma query_values_sync_examples:
  "query_values ''sync_mode=batch'' ''sync_mode'' = [] @ [''batch'']"
  "query_values ''sync_mode=BATCH'' ''sync_mode'' = [] @ [''BATCH'']"
  "query_values ''sync_mode=3'' ''sync_mode'' = [] @ [''3'']"
  "query_values ''sync_mode=7'' ''sync_mode'' = [] @ [''7'']"
  "query_values ''sync_mode=bogus'' ''sync_mode'' = [] @ [''bogus'']"
  "query_values [] ''sync_mode'' = []"
  by (simp_all add: qs_eval)

lemma upper_examples:
  "upper ''batch'' = ''BATCH''" "upper ''BATCH'' = ''BATCH''" "upper ''3'' = ''3''"
  "upper ''7'' = ''7''" "upper ''bogus'' = ''BOGUS''"
  by (simp_all add: upper_def ascii_lowercase_def ascii_uppercase_def)

lemma py_int_examples:
  "py_int ''3'' = Inr 3" "py_int ''7'' = Inr 7" "py_int ''BOGUS'' = Inl ValueError"
  "py_int ''abc'' = Inl ValueError"
  by (simp_all add: int_eval)


subsection \<open>The query string of the result\<close>



subsection \<open>Precedence of the parameters\<close>






subsection \<open>Failure of \<open>get_url\<close>\<close>

text \<open>
  Claim C9 asks that \<open>get_url\<close> returns a result for every valid URL. A \<open>gid\<close> that is
  not an integer makes it raise \<open>ValueError\<close>.
\<close>

theorem get_url_bad_gid:
  "get_url ''https://x/y/d/ID/edit?gid=abc'' 0 0 None = Inl ValueError"
proof -
  have 1: "query_values ''gid=abc'' ''headers'' = []" "query_values ''gid=abc'' ''gid'' = [''abc'']"
    by (simp_all add: qs_eval)
  show ?thesis
    by (simp add: get_url_parts[OF urlparse_bad_gid_example] get_url_resolve_last 1
        py_int_examples bind_result_Inr bind_result_Inl)
qed

text \<open>
  Claim C9 as amended: for a URL that \<open>urlparse\<close> accepts, \<open>get_url\<close> returns a result
  exactly when \<open>int\<close> accepts the last \<open>headers\<close> value and the last \<open>gid\<close> value of the
  query string (where the parameter is present) and the text after a fragment prefix
  \<open>gid=\<close>; in every other case it raises \<open>ValueError\<close>.
\<close>

theorem get_url_total_on_integers:
  assumes "urlparse uri = Inr parts"
  shows "((\<exists>url. get_url uri headers gid sheet = Inr url) =
          ((query_values (query parts) ''headers'' = [] \<or>
              (\<exists>h. py_int (last (query_values (query parts) ''headers'')) = Inr h)) \<and>
           (query_values (query parts) ''gid'' = [] \<or>
              (\<exists>g. py_int (last (query_values (query parts) ''gid'')) = Inr g)) \<and>
           (startswith (fragment parts) ''gid='' \<longrightarrow>
              (\<exists>k. py_int (drop 4 (fragment parts)) = Inr k)))) \<and>
         ((\<exists>url. get_url uri headers gid sheet = Inr url) \<or>
          get_url uri headers gid sheet = Inl ValueError)"
proof -
  let ?H = "if query_values (query parts) ''headers'' = [] then Inr headers
            else py_int (last (query_values (query parts) ''headers''))"
  let ?G = "if query_values (query parts) ''gid'' = [] then Inr gid
            else py_int (last (query_values (query parts) ''gid''))"
  let ?F = "\<lambda>g. if startswith (fragment parts) ''gid='' then py_int (drop 4 (fragment parts))
                 else Inr g"
  have H: "(\<exists>h. ?H = Inr h) \<or> ?H = Inl ValueError"
    using py_int_cases by simp
  have G: "(\<exists>g. ?G = Inr g) \<or> ?G = Inl ValueError"
    using py_int_cases by simp
  have F: "(\<exists>k. ?F g = Inr k) \<or> ?F g = Inl ValueError" for g
    using py_int_cases by simp
  have eq: "get_url uri headers gid sheet =
     bind_result (bind_result ?H (\<lambda>h. bind_result ?G (\<lambda>g. bind_result (?F g)
        (\<lambda>g'. Inr (h, g', if query_values (query parts) ''sheet'' = [] then sheet
                   else Some (last (query_values (query parts) ''sheet'')))))))
       (\<lambda>(h, g, s). Inr (urlunparse (scheme parts, netloc parts, get_url_path parts, [],
                                     urlencode (get_url_args h g s), [])))"
    by (simp only: get_url_parts[OF assms] get_url_resolve_last)
  show ?thesis
  proof (cases ?H)
    case (Inl e)
    with H have "?H = Inl ValueError" by auto
    then show ?thesis
      unfolding eq by (auto simp: bind_result_Inl split: if_splits)
  next
    case h: (Inr h)
    show ?thesis
    proof (cases ?G)
      case (Inl e)
      with G have "?G = Inl ValueError" by auto
      with h show ?thesis
        unfolding eq by (auto simp: bind_result_Inl bind_result_Inr split: if_splits)
    next
      case g: (Inr g)
      show ?thesis
      proof (cases "?F g")
        case (Inl e)
        with F[of g] have "?F g = Inl ValueError" by auto
        with h g show ?thesis
          unfolding eq by (auto simp: bind_result_Inl bind_result_Inr split: if_splits)
      next
        case (Inr k)
        with h g show ?thesis
          unfolding eq by (auto simp: bind_result_Inl bind_result_Inr split: if_splits)
      qed
    qed
  qed
qed

theorem get_url_total_on_integers_witness:
  "\<exists>url. get_url ''https://x/y/d/ID/edit?gid=3#gid=7'' 0 0 None = Inr url"
proof -
  have 1: "query_values ''gid=3'' ''headers'' = []" "query_values ''gid=3'' ''gid'' = [''3'']"
    by (simp_all add: qs_eval)
  have 3: "startswith ''gid=7'' ''gid=''"
    by (simp add: startswith_def)
  show ?thesis
    using get_url_total_on_integers[OF urlparse_example, where headers = 0 and gid = 0
        and sheet = None]
    by (simp add: 1 3 py_int_examples)
qed

subsection \<open>The synchronisation mode\<close>

lemma enum_by_value_error: "enum_by_value E v = Inl e \<Longrightarrow> e = ValueError"
  by (auto simp: enum_by_value_def split: option.splits)

lemma enum_by_name_error: "enum_by_name E name = Inl e \<Longrightarrow> e = KeyError"
  by (auto simp: enum_by_name_def split: option.splits)

lemma find_value_of_member:
  "map_of E name = Some v \<Longrightarrow> \<exists>m. find (\<lambda>m. snd m = v) E = Some m \<and> snd m = v"
proof -
  assume "map_of E name = Some v"
  then have "(name, v) \<in> set E" by (rule map_of_SomeD)
  then have "\<exists>m \<in> set E. snd m = v" by force
  then show ?thesis
    by (cases "find (\<lambda>m. snd m = v) E") (auto simp: find_None_iff dest: find_Some_iff[THEN iffD1])
qed

text \<open>A name and the value it stands for denote the same member.\<close>

lemma enum_by_name_value:
  "map_of E name = Some v \<Longrightarrow> enum_by_name E name = enum_by_value E v \<and>
     (\<exists>m. enum_by_value E v = Inr m \<and> snd m = v)"
  using find_value_of_member[of E name v]
  by (auto simp: enum_by_name_def enum_by_value_def)

lemma enum_by_name_absent: "map_of E name = None \<Longrightarrow> enum_by_name E name = Inl KeyError"
  by (simp add: enum_by_name_def)

lemma get_sync_mode_parts:
  assumes "urlparse uri = Inr parts"
  shows "get_sync_mode E uri =
     (if query_values (query parts) ''sync_mode'' = [] then Inr None
      else (case enum_by_name E (upper (last (query_values (query parts) ''sync_mode''))) of
              Inr m \<Rightarrow> Inr (Some m)
            | Inl e \<Rightarrow>
                (case bind_result (py_int (upper (last (query_values (query parts) ''sync_mode''))))
                        (enum_by_value E) of
                   Inr m \<Rightarrow> Inr (Some m)
                 | Inl e' \<Rightarrow> Inl (ProgrammingError (''Invalid sync mode: ''
                      @ upper (last (query_values (query parts) ''sync_mode'')))))))"
proof -
  have inner: "bind_result (py_int t) (enum_by_value E) = Inl e' \<Longrightarrow> e' = ValueError" for t e'
    by (cases "py_int t") (auto simp: bind_result_def dest: py_int_error enum_by_value_error)
  show ?thesis
    by (auto simp: get_sync_mode_def assms bind_result_Inr Let_def parse_qs_lookup
        py_last_nonempty split: sum.splits dest: enum_by_name_error inner)
qed

text \<open>
  Claim C7: without a \<open>sync_mode\<close> parameter the result is \<open>None\<close>. Otherwise the last
  value counts: its upper-case form is looked up among the names first, and only when no
  member has that name is it read as an integer and looked up among the values. A name
  and the value it stands for resolve to the same member.
\<close>

theorem get_sync_mode_resolution:
  assumes "urlparse uri = Inr parts"
  shows "(query_values (query parts) ''sync_mode'' = [] \<longrightarrow> get_sync_mode E uri = Inr None) \<and>
         (query_values (query parts) ''sync_mode'' = vs @ [t] \<and> map_of E (upper t) = Some v \<longrightarrow>
            (\<exists>m. enum_by_value E v = Inr m \<and> get_sync_mode E uri = Inr (Some m))) \<and>
         (query_values (query parts) ''sync_mode'' = vs @ [t] \<and> map_of E (upper t) = None \<and>
          py_int (upper t) = Inr v \<and> enum_by_value E v = Inr m \<longrightarrow>
            get_sync_mode E uri = Inr (Some m))"
  using enum_by_name_value[of E "upper t" v]
  by (auto simp: get_sync_mode_parts[OF assms] enum_by_name_absent bind_result_Inr)

theorem get_sync_mode_resolution_witness:
  "get_sync_mode [(''BATCH'', 3)] ''https://x/y'' = Inr None \<and>
   get_sync_mode [(''BATCH'', 3)] ''https://x/y?sync_mode=batch'' = Inr (Some (''BATCH'', 3)) \<and>
   get_sync_mode [(''BATCH'', 3)] ''https://x/y?sync_mode=BATCH'' = Inr (Some (''BATCH'', 3)) \<and>
   get_sync_mode [(''BATCH'', 3)] ''https://x/y?sync_mode=3'' = Inr (Some (''BATCH'', 3))"
proof -
  have v: "enum_by_value [(''BATCH'', 3)] 3 = Inr (''BATCH'', 3)"
    by (simp add: enum_by_value_def)
  have "get_sync_mode [(''BATCH'', 3)] ''https://x/y'' = Inr None"
    using get_sync_mode_resolution[OF urlparse_sync_examples(6), where E = "[(''BATCH'', 3)]"]
    by (simp add: query_values_sync_examples)
  moreover have "get_sync_mode [(''BATCH'', 3)] ''https://x/y?sync_mode=batch'' = Inr (Some (''BATCH'', 3))"
    using get_sync_mode_resolution[OF urlparse_sync_examples(1), where vs = "[]" and t = "''batch''"
        and E = "[(''BATCH'', 3)]" and v = 3]
    by (simp add: query_values_sync_examples upper_examples v)
  moreover have "get_sync_mode [(''BATCH'', 3)] ''https://x/y?sync_mode=BATCH'' = Inr (Some (''BATCH'', 3))"
    using get_sync_mode_resolution[OF urlparse_sync_examples(2), where vs = "[]" and t = "''BATCH''"
        and E = "[(''BATCH'', 3)]" and v = 3]
    by (simp add: query_values_sync_examples upper_examples v)
  moreover have "get_sync_mode [(''BATCH'', 3)] ''https://x/y?sync_mode=3'' = Inr (Some (''BATCH'', 3))"
    using get_sync_mode_resolution[OF urlparse_sync_examples(3), where vs = "[]" and t = "''3''"
        and E = "[(''BATCH'', 3)]" and v = 3 and m = "(''BATCH'', 3)"]
    by (simp add: query_values_sync_examples upper_examples v py_int_examples)
  ultimately show ?thesis by blast
qed

text \<open>
  Claim C8 asks that the error carries the token as it was supplied. For the token
  \<open>bogus\<close> the message reads \<open>BOGUS\<close>.
\<close>

theorem get_sync_mode_bogus:
  "get_sync_mode [(''BATCH'', 3)] ''https://x/y?sync_mode=bogus''
     = Inl (ProgrammingError ''Invalid sync mode: BOGUS'') \<and>
   get_sync_mode [(''BATCH'', 3)] ''https://x/y?sync_mode=bogus''
     \<noteq> Inl (ProgrammingError ''Invalid sync mode: bogus'')"
  by (simp add: get_sync_mode_parts[OF urlparse_sync_examples(5)] query_values_sync_examples
      upper_examples py_int_examples enum_by_name_def bind_result_Inl)

text \<open>
  Claim C8 as amended: a token that is neither the name of a member, after conversion to
  upper case, nor an integer that is the value of a member makes \<open>get_sync_mode\<close> fail
  with a \<open>ProgrammingError\<close> whose message carries the token in upper case; no default
  mode is substituted.
\<close>

theorem get_sync_mode_invalid_token:
  assumes "urlparse uri = Inr parts"
    and "query_values (query parts) ''sync_mode'' = vs @ [t]"
    and "map_of E (upper t) = None"
    and "py_int (upper t) = Inl e \<or> (\<exists>v. py_int (upper t) = Inr v \<and> find (\<lambda>m. snd m = v) E = None)"
  shows "get_sync_mode E uri = Inl (ProgrammingError (''Invalid sync mode: '' @ upper t))"
  using assms(2-4)
  by (auto simp: get_sync_mode_parts[OF assms(1)] enum_by_name_absent bind_result_Inr
      bind_result_Inl enum_by_value_def)

theorem get_sync_mode_invalid_token_witness:
  "get_sync_mode [(''BATCH'', 3)] ''https://x/y?sync_mode=7''
     = Inl (ProgrammingError ''Invalid sync mode: 7'')"
  using get_sync_mode_invalid_token[OF urlparse_sync_examples(4), where vs = "[]" and t = "''7''"
      and E = "[(''BATCH'', 3)]"]
  by (simp add: query_values_sync_examples upper_examples py_int_examples)

end
